theory Spec2Isabelle
  imports Main
begin

section \<open>The updater of btblocklist: data model\<close>

text \<open>
  The development follows \<^verbatim>\<open>src/updater/updater.go\<close>. The controller is a Go struct
  mutated in place; here every function takes the controller and returns the new one.
  Calls to the logger only produce log lines and are left out: no field of the controller
  and no value handed to a collaborator depends on them.
\<close>

subsection \<open>Standard library: strings, errors, the gzip writer over a bytes.Buffer\<close>

datatype error = Error string

text \<open>\<^verbatim>\<open>strings.Join(elems, sep)\<close>: the elements with \<open>sep\<close> between neighbours.\<close>

fun strings_Join :: "string list \<Rightarrow> string \<Rightarrow> string" where
  "strings_Join [] sep = []"
| "strings_Join [x] sep = x"
| "strings_Join (x # y # ys) sep = x @ sep @ strings_Join (y # ys) sep"

text \<open>
  The bytes of a gzip stream are kept symbolic, one item per part of the stream that
  \<^verbatim>\<open>compress/gzip\<close> emits: the ten-byte header, the DEFLATE stream of a payload at a
  compression level, and the trailer (CRC-32 and size of the payload). A \<^verbatim>\<open>[]byte\<close> is
  a list of such items; the nil slice is the empty list.
\<close>

datatype gz_part = GzHeader | GzDeflate int string | GzTrailer string

type_synonym bytes = "gz_part list"

text \<open>Decompression: defined on a complete single-member stream, undefined elsewhere.\<close>

fun gunzip :: "bytes \<Rightarrow> string option" where
  "gunzip [GzHeader, GzDeflate l p, GzTrailer q] = (if p = q then Some p else None)"
| "gunzip _ = None"

text \<open>
  The compile step talks to its compressor through four operations, each of which may
  return an error: creating the writer at a level, \<^verbatim>\<open>Write\<close>, \<^verbatim>\<open>Close\<close>, and
  reading the bytes accumulated by the underlying buffer.
\<close>

record 'z compressor =
  zNewWriterLevel :: "int \<Rightarrow> error + 'z"
  zWrite :: "'z \<Rightarrow> string \<Rightarrow> error + 'z"
  zClose :: "'z \<Rightarrow> error + 'z"
  zBytes :: "'z \<Rightarrow> bytes"

text \<open>
  \<^verbatim>\<open>gzip.NewWriterLevel(bytes.NewBuffer(nil), level)\<close>. The state holds the buffer
  \<open>sink\<close> the writer emits to, the level, whether the header went out, the payload
  handed to the DEFLATE compressor so far, and whether the writer is closed.
  \<^verbatim>\<open>bytes.Buffer.Write\<close> always returns a nil error, so the writer's sticky error
  is never set and is not a field.
\<close>

record gzip_Writer =
  sink :: bytes
  level :: int
  wroteHeader :: bool
  pending :: string
  closed :: bool

definition HuffmanOnly :: int where "HuffmanOnly = -2"
definition BestCompression :: int where "BestCompression = 9"

definition gzip_NewWriterLevel :: "int \<Rightarrow> error + gzip_Writer" where
  "gzip_NewWriterLevel lvl =
     (if lvl < HuffmanOnly \<or> lvl > BestCompression
      then Inl (Error ''gzip: invalid compression level'')
      else Inr \<lparr>sink = [], level = lvl, wroteHeader = False, pending = [], closed = False\<rparr>)"

text \<open>
  \<^verbatim>\<open>Write\<close>: the header goes out lazily with the first call, then the data is handed
  to the DEFLATE compressor, which refuses it once the writer is closed.
\<close>

definition gzip_Write :: "gzip_Writer \<Rightarrow> string \<Rightarrow> error + gzip_Writer" where
  "gzip_Write z p =
     (let z1 = (if wroteHeader z then z
                else z\<lparr>wroteHeader := True, sink := sink z @ [GzHeader]\<rparr>)
      in if closed z1 then Inl (Error ''flate: closed writer'')
         else Inr (z1\<lparr>pending := pending z1 @ p\<rparr>))"

text \<open>\<^verbatim>\<open>Close\<close>: a second call does nothing; an unused writer still emits its header;
  the compressor is flushed and the trailer written.\<close>

definition gzip_Close :: "gzip_Writer \<Rightarrow> error + gzip_Writer" where
  "gzip_Close z =
     (if closed z then Inr z
      else (let z1 = (if wroteHeader z then z
                      else z\<lparr>wroteHeader := True, sink := sink z @ [GzHeader]\<rparr>)
            in Inr (z1\<lparr>closed := True,
                        sink := sink z1 @ [GzDeflate (level z1) (pending z1), GzTrailer (pending z1)]\<rparr>)))"

definition gzip_Buffer :: "gzip_Writer compressor" where
  "gzip_Buffer = \<lparr>zNewWriterLevel = gzip_NewWriterLevel, zWrite = gzip_Write,
                   zClose = gzip_Close, zBytes = sink\<rparr>"

text \<open>
  \<^verbatim>\<open>io.Copy(dst, src)\<close> with a \<^verbatim>\<open>bytes.Buffer\<close> as source: the buffer's
  \<^verbatim>\<open>WriteTo\<close> hands its whole content to \<open>dst\<close> in one \<^verbatim>\<open>Write\<close>, and makes no
  call at all when it is empty.
\<close>

definition io_Copy :: "'z compressor \<Rightarrow> 'z \<Rightarrow> string \<Rightarrow> error + 'z" where
  "io_Copy ops z s = (if s = [] then Inr z else zWrite ops z s)"

subsection \<open>The controller\<close>

type_synonym time = int

text \<open>
  The fields of \<^verbatim>\<open>Controller\<close> that the updater reads or writes; \<open>frequency\<close> is a
  \<^verbatim>\<open>time.Duration\<close>, a count of nanoseconds. \<open>statusSink\<close> is not a field of the Go
  struct: it records, in order, every string handed to the \<^verbatim>\<open>statusUpdate\<close> callback.
\<close>

record Controller =
  frequency :: int
  blocklists :: "string \<rightharpoonup> string"
  ripeState :: "string list"
  externalStates :: "string \<rightharpoonup> string list"
  compressedData :: bytes
  lastUpdate :: time
  lastBatch :: time
  statusSink :: "string list"

text \<open>
  \<^verbatim>\<open>for k, v := range m\<close>: Go visits every key once, in an order that is not
  specified and may differ from one loop to the next. The order of one loop is a
  parameter \<open>ks\<close>; \<open>iteration_order m ks\<close> says that \<open>ks\<close> is an order Go may pick.
\<close>

definition range_map :: "('k \<rightharpoonup> 'v) \<Rightarrow> 'k list \<Rightarrow> ('k \<times> 'v) list" where
  "range_map m ks = List.map_filter (\<lambda>k. map_option (Pair k) (m k)) ks"

definition iteration_order :: "('k \<rightharpoonup> 'v) \<Rightarrow> 'k list \<Rightarrow> bool" where
  "iteration_order m ks \<longleftrightarrow> distinct ks \<and> set ks = dom m"

section \<open>compileFinalDataBlobFromCache\<close>

definition ripeHeader :: string where
  "ripeHeader = ''# BTBlocklist RIPE search'' @ [CHR 0x0A]"

text \<open>The loop of lines 97 to 108 over the entries of \<^verbatim>\<open>c.externalStates\<close>.\<close>

fun writeExternal :: "'z compressor \<Rightarrow> (string \<times> string list) list \<Rightarrow> 'z \<Rightarrow> error + 'z" where
  "writeExternal ops [] z = Inr z"
| "writeExternal ops ((name, lines) # rest) z =
     (case io_Copy ops z (strings_Join lines [CHR 0x0A]) of
        Inl e \<Rightarrow> Inl e
      | Inr z1 \<Rightarrow>
         (case zWrite ops z1 [CHR 0x0A] of
            Inl e \<Rightarrow> Inl e
          | Inr z2 \<Rightarrow> writeExternal ops rest z2))"

text \<open>
  The function over any compressor; \<open>ks\<close> is the order of the \<^verbatim>\<open>range\<close> loop. Every
  early \<^verbatim>\<open>return\<close> leaves the named result \<^verbatim>\<open>data\<close> nil.
\<close>

definition compileWith :: "'z compressor \<Rightarrow> Controller \<Rightarrow> string list \<Rightarrow> bytes" where
  "compileWith ops c ks =
     (case zNewWriterLevel ops BestCompression of
        Inl e \<Rightarrow> []
      | Inr z0 \<Rightarrow>
     (case zWrite ops z0 ripeHeader of
        Inl e \<Rightarrow> []
      | Inr z1 \<Rightarrow>
     (case io_Copy ops z1 (strings_Join (ripeState c) [CHR 0x0A]) of
        Inl e \<Rightarrow> []
      | Inr z2 \<Rightarrow>
     (case zWrite ops z2 [CHR 0x0A] of
        Inl e \<Rightarrow> []
      | Inr z3 \<Rightarrow>
     (case writeExternal ops (range_map (externalStates c) ks) z3 of
        Inl e \<Rightarrow> []
      | Inr z4 \<Rightarrow>
     (case zClose ops z4 of
        Inl e \<Rightarrow> []
      | Inr z5 \<Rightarrow> zBytes ops z5))))))"

definition compileFinalDataBlobFromCache :: "Controller \<Rightarrow> string list \<Rightarrow> bytes" where
  "compileFinalDataBlobFromCache c ks = compileWith gzip_Buffer c ks"

text \<open>The text the claims describe: each section is its lines joined, then one newline.\<close>

definition section_text :: "string list \<Rightarrow> string" where
  "section_text ls = strings_Join ls [CHR 0x0A] @ [CHR 0x0A]"

definition merged_text :: "string list \<Rightarrow> (string \<times> string list) list \<Rightarrow> string" where
  "merged_text ripe ext = ripeHeader @ section_text ripe @ concat (map (\<lambda>(n, ls). section_text ls) ext)"

section \<open>updateStatus\<close>

text \<open>
  \<^verbatim>\<open>fmt.Sprintf\<close> for the verbs the updater uses: \<^verbatim>\<open>%d\<close> prints an integer in
  decimal, \<^verbatim>\<open>%s\<close> a string, \<^verbatim>\<open>%v\<close> either; a verb that does not fit its operand
  and a verb without operand print Go's error markers.
\<close>

datatype arg = IntArg int | StrArg string

definition digit_char :: "nat \<Rightarrow> char" where
  "digit_char d = ''0123456789'' ! d"

fun show_nat :: "nat \<Rightarrow> string" where
  "show_nat n = (if n < 10 then [digit_char n] else show_nat (n div 10) @ [digit_char (n mod 10)])"

declare show_nat.simps [simp del]

definition show_int :: "int \<Rightarrow> string" where
  "show_int i = (if i < 0 then CHR ''-'' # show_nat (nat (- i)) else show_nat (nat i))"

definition fmt_verb :: "char \<Rightarrow> arg \<Rightarrow> string" where
  "fmt_verb v a =
     (case a of
        IntArg i \<Rightarrow> if v = CHR ''d'' \<or> v = CHR ''v'' then show_int i
                    else ''%!'' @ [v] @ ''(int='' @ show_int i @ '')''
      | StrArg s \<Rightarrow> if v = CHR ''s'' \<or> v = CHR ''v'' then s
                    else ''%!'' @ [v] @ ''(string='' @ s @ '')'')"

fun Sprintf :: "string \<Rightarrow> arg list \<Rightarrow> string" where
  "Sprintf [] args = []"
| "Sprintf [c] args = (if c = CHR ''%'' then ''%!(NOVERB)'' else [c])"
| "Sprintf (c # v # rest) args =
     (if c = CHR ''%'' then
        (if v = CHR ''%'' then CHR ''%'' # Sprintf rest args
         else (case args of
                 [] \<Rightarrow> ''%!'' @ [v] @ ''(MISSING)'' @ Sprintf rest []
               | a # as \<Rightarrow> fmt_verb v a @ Sprintf rest as))
      else c # Sprintf (v # rest) args)"

definition timeFormat :: string where
  "timeFormat = ''2 Jan 2006 15:04:05 MST''"

definition statusFormat :: string where
  "statusFormat = ''RIPE: %d range(s) | External: %d list(s) with a total of %d line(s) | Last modification: %s | Last update: %s''"

text \<open>
  What one batch receives from outside the controller: the clock reading of
  \<^verbatim>\<open>time.Now()\<close>, the outcome of the RIPE probe and of each external probe (\<open>None\<close> is
  "no change", \<open>Some ls\<close> the replacement lines), the order of each of the three
  \<^verbatim>\<open>range\<close> loops, the \<^verbatim>\<open>statusUpdate\<close> callback (\<open>None\<close> is a nil error) and
  \<^verbatim>\<open>time.Time.Format\<close>.
\<close>

record batch_env =
  now :: time
  ripeProbe :: "string list option"
  externalProbe :: "string \<Rightarrow> string \<Rightarrow> string list option"
  probeOrder :: "string list"
  compileOrder :: "string list"
  statusOrder :: "string list"
  statusUpdate :: "string \<Rightarrow> error option"
  formatTime :: "time \<Rightarrow> string \<Rightarrow> string"

text \<open>
  Lines 120 to 125. The callback's error is only logged, so both branches leave the
  controller as it is; the string handed to the callback is recorded.
\<close>

definition updateStatus ::
  "batch_env \<Rightarrow> int \<Rightarrow> int \<Rightarrow> int \<Rightarrow> time \<Rightarrow> time \<Rightarrow> Controller \<Rightarrow> Controller" where
  "updateStatus env nbRIPEranges nbLists nbLines lstModif lstBatch c =
     (let msg = Sprintf statusFormat
                  [IntArg nbRIPEranges, IntArg nbLists, IntArg nbLines,
                   StrArg (formatTime env lstModif timeFormat),
                   StrArg (formatTime env lstBatch timeFormat)];
          c1 = c\<lparr>statusSink := statusSink c @ [msg]\<rparr>
      in (case statusUpdate env msg of
            Some err \<Rightarrow> c1
          | None \<Rightarrow> c1))"

section \<open>updaterBatch\<close>

text \<open>
  Modelled from the spec: \<^verbatim>\<open>updateRipe\<close> is not among the sources. The authoritative
  probe returns either "no change" or a full replacement sequence; on replacement it
  overwrites the RipeLines slot and reports a change; a failing probe counts as
  "no change" and leaves the slot untouched.
\<close>

definition updateRipe :: "string list option \<Rightarrow> Controller \<Rightarrow> bool \<times> Controller" where
  "updateRipe outcome c =
     (case outcome of
        None \<Rightarrow> (False, c)
      | Some ls \<Rightarrow> (True, c\<lparr>ripeState := ls\<rparr>))"

text \<open>
  Modelled from the spec: \<^verbatim>\<open>getExternalBlockList\<close> is not among the sources. Each
  external probe returns either "no change" or a full replacement sequence for its
  name; on replacement it overwrites that source's slot and reports a change.
\<close>

definition getExternalBlockList ::
  "(string \<Rightarrow> string \<Rightarrow> string list option) \<Rightarrow> string \<Rightarrow> string \<Rightarrow> Controller \<Rightarrow> bool \<times> Controller" where
  "getExternalBlockList probe name url c =
     (case probe name url of
        None \<Rightarrow> (False, c)
      | Some ls \<Rightarrow> (True, c\<lparr>externalStates := (externalStates c)(name \<mapsto> ls)\<rparr>))"

text \<open>The loop of lines 49 to 53 over the entries of \<^verbatim>\<open>c.blocklists\<close>.\<close>

fun probeExternal ::
  "(string \<Rightarrow> string \<Rightarrow> string list option) \<Rightarrow> (string \<times> string) list \<Rightarrow> bool \<Rightarrow> Controller
     \<Rightarrow> bool \<times> Controller" where
  "probeExternal probe [] externalUpdate c = (externalUpdate, c)"
| "probeExternal probe ((name, url) # rest) externalUpdate c =
     (case getExternalBlockList probe name url c of
        (changed, c1) \<Rightarrow>
          probeExternal probe rest (if changed then True else externalUpdate) c1)"

text \<open>The loop of lines 41 to 43: \<^verbatim>\<open>externalLines += len(lines)\<close>.\<close>

fun countLines :: "(string \<times> string list) list \<Rightarrow> int \<Rightarrow> int" where
  "countLines [] externalLines = externalLines"
| "countLines ((name, lines) # rest) externalLines =
     countLines rest (externalLines + int (length lines))"

text \<open>The deferred function of lines 38 to 45; it runs on every return path.\<close>

definition deferred :: "batch_env \<Rightarrow> time \<Rightarrow> Controller \<Rightarrow> Controller" where
  "deferred env batchStart c =
     (let c1 = c\<lparr>lastBatch := batchStart\<rparr>;
          externalLines = countLines (range_map (externalStates c1) (statusOrder env)) 0
      in updateStatus env (int (length (ripeState c1))) (int (card (dom (externalStates c1))))
           externalLines (lastUpdate c1) (lastBatch c1) c1)"

text \<open>The probing phase, lines 47 to 53: the RIPE probe, then every configured blocklist.\<close>

definition probing :: "batch_env \<Rightarrow> Controller \<Rightarrow> bool \<times> bool \<times> Controller" where
  "probing env c =
     (case updateRipe (ripeProbe env) c of
        (ripeUpdate, c1) \<Rightarrow>
          (case probeExternal (externalProbe env)
                  (range_map (blocklists c1) (probeOrder env)) False c1 of
             (externalUpdate, c2) \<Rightarrow> (ripeUpdate, externalUpdate, c2)))"

text \<open>
  The body of the function, lines 46 to 68, up to the point where it returns: the
  controller it leaves is the one the deferred function starts from.
\<close>

definition batchBody :: "'z compressor \<Rightarrow> batch_env \<Rightarrow> time \<Rightarrow> Controller \<Rightarrow> Controller" where
  "batchBody ops env batchStart c =
     (case probing env c of
        (ripeUpdate, externalUpdate, c2) \<Rightarrow>
          (if \<not> ripeUpdate \<and> \<not> externalUpdate then c2
           else (let data = compileWith ops c2 (compileOrder env)
                 in if data = [] then c2
                    else c2\<lparr>compressedData := data, lastUpdate := batchStart\<rparr>)))"

definition updaterBatchWith :: "'z compressor \<Rightarrow> batch_env \<Rightarrow> Controller \<Rightarrow> Controller" where
  "updaterBatchWith ops env c =
     (let batchStart = now env
      in deferred env batchStart (batchBody ops env batchStart c))"

definition updaterBatch :: "batch_env \<Rightarrow> Controller \<Rightarrow> Controller" where
  "updaterBatch env c = updaterBatchWith gzip_Buffer env c"

section \<open>updater\<close>


text \<open>
  \<^verbatim>\<open>time.NewTicker(d)\<close> panics when \<open>d\<close> is not positive; otherwise the ticker runs
  with period \<open>d\<close> until it is stopped.
\<close>

record worker =
  ctl :: Controller
  tickerPeriod :: int
  tickerRunning :: bool

datatype outcome = Returned worker | Waiting worker | Panicked error





section \<open>Concrete inputs\<close>

text \<open>
  A controller with an interval of one hour, two RIPE ranges and two external sources, a batch in which no probe
  has news, a batch in which the RIPE probe has, a compressor whose \<^verbatim>\<open>Close\<close> fails,
  and a controller whose sections are empty.
\<close>

definition demoController :: Controller where
  "demoController =
     \<lparr>frequency = 3600000000000,
      blocklists = [''feodo'' \<mapsto> ''https://feodo.example/list''],
      ripeState = [''A,1.2.3.0/24,AS1'', ''B,4.5.6.0/24,AS2''],
      externalStates = [''a'' \<mapsto> [''8.8.8.8''], ''b'' \<mapsto> [''9.9.9.9'']],
      compressedData = [], lastUpdate = 0, lastBatch = 0, statusSink = []\<rparr>"

definition quietEnv :: batch_env where
  "quietEnv =
     \<lparr>now = 10, ripeProbe = None, externalProbe = (\<lambda>name url. None),
      probeOrder = [''feodo''], compileOrder = [''b'', ''a''], statusOrder = [''a'', ''b''],
      statusUpdate = (\<lambda>msg. Some (Error ''sink unreachable'')),
      formatTime = (\<lambda>t layout. show_int t)\<rparr>"

definition busyEnv :: batch_env where
  "busyEnv = quietEnv\<lparr>now := 20, ripeProbe := Some [''C,7.8.9.0/24,AS3'']\<rparr>"

definition failingCompressor :: "unit compressor" where
  "failingCompressor =
     \<lparr>zNewWriterLevel = (\<lambda>lvl. Inr ()), zWrite = (\<lambda>z p. Inr ()),
      zClose = (\<lambda>z. Inl (Error ''short write'')), zBytes = (\<lambda>z. [])\<rparr>"

definition emptyController :: Controller where
  "emptyController = demoController\<lparr>ripeState := [], externalStates := [''a'' \<mapsto> []]\<rparr>"

section \<open>Auxiliary facts\<close>

subsection \<open>The gzip writer over a buffer\<close>

lemma io_Copy_gzip:
  "\<not> closed z \<Longrightarrow> wroteHeader z \<Longrightarrow> io_Copy gzip_Buffer z s = Inr (z\<lparr>pending := pending z @ s\<rparr>)"
  by (simp add: io_Copy_def gzip_Buffer_def gzip_Write_def)

lemma zWrite_gzip:
  "\<not> closed z \<Longrightarrow> wroteHeader z \<Longrightarrow> zWrite gzip_Buffer z s = Inr (z\<lparr>pending := pending z @ s\<rparr>)"
  by (simp add: gzip_Buffer_def gzip_Write_def)

lemma writeExternal_gzip:
  "\<not> closed z \<Longrightarrow> wroteHeader z \<Longrightarrow>
   writeExternal gzip_Buffer es z =
     Inr (z\<lparr>pending := pending z @ concat (map (\<lambda>(n, ls). section_text ls) es)\<rparr>)"
proof (induction es arbitrary: z)
  case Nil
  then show ?case by simp
next
  case (Cons e es)
  obtain name ls where e: "e = (name, ls)" by (cases e)
  let ?z2 = "z\<lparr>pending := pending z @ section_text ls\<rparr>"
  have step: "writeExternal gzip_Buffer (e # es) z = writeExternal gzip_Buffer es ?z2"
    using Cons.prems by (simp add: e io_Copy_gzip zWrite_gzip section_text_def)
  have "\<not> closed ?z2" "wroteHeader ?z2" using Cons.prems by simp_all
  from Cons.IH[OF this] step show ?case by (simp add: e)
qed

lemma compile_closed_form:
  "compileFinalDataBlobFromCache c ks =
     [GzHeader,
      GzDeflate BestCompression (merged_text (ripeState c) (range_map (externalStates c) ks)),
      GzTrailer (merged_text (ripeState c) (range_map (externalStates c) ks))]"
proof -
  let ?z1 = "\<lparr>sink = [GzHeader], level = BestCompression, wroteHeader = True,
              pending = ripeHeader, closed = False\<rparr>"
  have new: "zNewWriterLevel gzip_Buffer BestCompression =
     Inr \<lparr>sink = [], level = BestCompression, wroteHeader = False, pending = [], closed = False\<rparr>"
    by (simp add: gzip_Buffer_def gzip_NewWriterLevel_def HuffmanOnly_def BestCompression_def)
  have w1: "zWrite gzip_Buffer \<lparr>sink = [], level = BestCompression, wroteHeader = False, pending = [], closed = False\<rparr> ripeHeader = Inr ?z1"
    by (simp add: gzip_Buffer_def gzip_Write_def)
  let ?z3 = "?z1\<lparr>pending := ripeHeader @ section_text (ripeState c)\<rparr>"
  have w2: "io_Copy gzip_Buffer ?z1 (strings_Join (ripeState c) [CHR 0x0A]) =
      Inr (?z1\<lparr>pending := ripeHeader @ strings_Join (ripeState c) [CHR 0x0A]\<rparr>)"
    by (simp add: io_Copy_gzip)
  have w3: "zWrite gzip_Buffer (?z1\<lparr>pending := ripeHeader @ strings_Join (ripeState c) [CHR 0x0A]\<rparr>) [CHR 0x0A] = Inr ?z3"
    by (simp add: zWrite_gzip section_text_def)
  have w4: "writeExternal gzip_Buffer (range_map (externalStates c) ks) ?z3 =
      Inr (?z3\<lparr>pending := merged_text (ripeState c) (range_map (externalStates c) ks)\<rparr>)"
    by (simp add: writeExternal_gzip merged_text_def)
  have cl: "zClose gzip_Buffer (?z3\<lparr>pending := merged_text (ripeState c) (range_map (externalStates c) ks)\<rparr>)
     = Inr (?z3\<lparr>pending := merged_text (ripeState c) (range_map (externalStates c) ks), closed := True,
            sink := [GzHeader, GzDeflate BestCompression (merged_text (ripeState c) (range_map (externalStates c) ks)),
      GzTrailer (merged_text (ripeState c) (range_map (externalStates c) ks))]\<rparr>)"
    by (simp add: gzip_Buffer_def gzip_Close_def)
  show ?thesis
    unfolding compileFinalDataBlobFromCache_def compileWith_def
    by (simp only: new w1 w2 w3 w4 cl sum.case) (simp add: gzip_Buffer_def)
qed

subsection \<open>Probing, status and the deferred function\<close>

lemma getExternalBlockList_frame:
  "getExternalBlockList probe name url c = (ch, c') \<Longrightarrow>
   compressedData c' = compressedData c \<and> lastUpdate c' = lastUpdate c \<and>
   lastBatch c' = lastBatch c \<and> statusSink c' = statusSink c \<and>
   blocklists c' = blocklists c \<and> ripeState c' = ripeState c"
  by (auto simp: getExternalBlockList_def split: option.splits)

lemma probeExternal_frame:
  "probeExternal probe es upd c = (upd', c') \<Longrightarrow>
   compressedData c' = compressedData c \<and> lastUpdate c' = lastUpdate c \<and>
   lastBatch c' = lastBatch c \<and> statusSink c' = statusSink c \<and>
   blocklists c' = blocklists c \<and> ripeState c' = ripeState c"
proof (induction es arbitrary: upd c)
  case Nil
  then show ?case by simp
next
  case (Cons e es)
  obtain name url where e: "e = (name, url)" by (cases e)
  obtain ch c1 where g: "getExternalBlockList probe name url c = (ch, c1)"
    by (cases "getExternalBlockList probe name url c")
  from Cons.prems have "probeExternal probe es (if ch then True else upd) c1 = (upd', c')"
    by (simp add: e g)
  from Cons.IH[OF this] getExternalBlockList_frame[OF g] show ?case by simp
qed

lemma probing_frame:
  "probing env c = (ru, eu, c2) \<Longrightarrow>
   compressedData c2 = compressedData c \<and> lastUpdate c2 = lastUpdate c \<and>
   lastBatch c2 = lastBatch c \<and> statusSink c2 = statusSink c \<and>
   blocklists c2 = blocklists c"
  by (auto simp: probing_def updateRipe_def split: option.splits prod.splits
           dest: probeExternal_frame)

lemma updateStatus_frame:
  "updateStatus env a b k t1 t2 c =
     c\<lparr>statusSink := statusSink c @
        [Sprintf statusFormat [IntArg a, IntArg b, IntArg k,
           StrArg (formatTime env t1 timeFormat), StrArg (formatTime env t2 timeFormat)]]\<rparr>"
  by (simp add: updateStatus_def Let_def split: option.splits)

lemma deferred_fields:
  "compressedData (deferred env t c) = compressedData c"
  "lastUpdate (deferred env t c) = lastUpdate c"
  "lastBatch (deferred env t c) = t"
  "ripeState (deferred env t c) = ripeState c"
  "externalStates (deferred env t c) = externalStates c"
  "blocklists (deferred env t c) = blocklists c"
  "length (statusSink (deferred env t c)) = Suc (length (statusSink c))"
  by (simp_all add: deferred_def updateStatus_frame Let_def)

lemma probeExternal_unchanged:
  "\<forall>(name, url) \<in> set es. probe name url = None \<Longrightarrow>
   probeExternal probe es upd c = (upd, c)"
proof (induction es arbitrary: upd c)
  case Nil
  then show ?case by simp
next
  case (Cons e es)
  obtain name url where e: "e = (name, url)" by (cases e)
  from Cons.prems have "probe name url = None" by (simp add: e)
  then have "getExternalBlockList probe name url c = (False, c)"
    by (simp add: getExternalBlockList_def)
  moreover from Cons.prems have "\<forall>(name, url) \<in> set es. probe name url = None" by simp
  ultimately show ?case using Cons.IH by (simp add: e)
qed

lemma Sprintf_status:
  "Sprintf statusFormat [IntArg n, IntArg m, IntArg k, StrArg s, StrArg t] =
     ''RIPE: '' @ show_int n @ '' range(s) | External: '' @ show_int m @
     '' list(s) with a total of '' @ show_int k @ '' line(s) | Last modification: '' @ s @
     '' | Last update: '' @ t"
  by (simp add: statusFormat_def fmt_verb_def)

lemma countLines_acc:
  "countLines es n = n + (\<Sum>(name, ls) \<leftarrow> es. int (length ls))"
  by (induction es arbitrary: n) auto

lemma range_map_iteration:
  "iteration_order m ks \<Longrightarrow> range_map m ks = map (\<lambda>k. (k, the (m k))) ks"
proof -
  assume "iteration_order m ks"
  then have "set ks \<subseteq> dom m" by (simp add: iteration_order_def)
  then show ?thesis
    by (induction ks) (auto simp: range_map_def List.map_filter_simps)
qed

lemma countLines_range:
  assumes "iteration_order m ks"
  shows "countLines (range_map m ks) 0 = (\<Sum>k \<in> dom m. int (length (the (m k))))"
proof -
  from assms have d: "distinct ks" and s: "set ks = dom m" by (simp_all add: iteration_order_def)
  have "countLines (range_map m ks) 0 = (\<Sum>k \<leftarrow> ks. int (length (the (m k))))"
    by (simp add: countLines_acc range_map_iteration[OF assms] comp_def)
  also have "\<dots> = (\<Sum>k \<in> set ks. int (length (the (m k))))"
    using d by (simp add: sum_list_distinct_conv_sum_set)
  finally show ?thesis by (simp add: s)
qed

lemma updaterBatchWith_deferred:
  "updaterBatchWith ops env c = deferred env (now env) (batchBody ops env (now env) c)"
  by (simp add: updaterBatchWith_def Let_def)

lemma updaterBatchWith_cases:
  obtains c3 where "updaterBatchWith ops env c = deferred env (now env) c3"
    and "compressedData c3 = compressedData c \<and> lastUpdate c3 = lastUpdate c \<or>
         compressedData c3 \<noteq> [] \<and> lastUpdate c3 = now env"
    and "statusSink c3 = statusSink c"
proof -
  obtain ru eu c2 where p: "probing env c = (ru, eu, c2)" by (cases "probing env c") auto
  define c3 where "c3 = (if \<not> ru \<and> \<not> eu then c2
                 else (let data = compileWith ops c2 (compileOrder env)
                       in if data = [] then c2
                          else c2\<lparr>compressedData := data, lastUpdate := now env\<rparr>))"
  have "updaterBatchWith ops env c = deferred env (now env) c3"
    by (simp add: updaterBatchWith_def batchBody_def p c3_def Let_def)
  moreover have "compressedData c3 = compressedData c \<and> lastUpdate c3 = lastUpdate c \<or>
         compressedData c3 \<noteq> [] \<and> lastUpdate c3 = now env"
    using probing_frame[OF p] by (simp add: c3_def Let_def)
  moreover have "statusSink c3 = statusSink c"
    using probing_frame[OF p] by (simp add: c3_def Let_def)
  ultimately show thesis using that by blast
qed







lemma distinct_small:
  assumes "distinct ks" "distinct ks'" "set ks = set ks'" "card (set ks) \<le> 1"
  shows "ks = ks'"
proof -
  have "length ks \<le> 1" "length ks' \<le> 1"
    using assms by (simp_all add: distinct_card[symmetric])
  with assms(3) show ?thesis
    by (cases ks; cases ks') auto
qed

subsection \<open>The concrete inputs\<close>

lemma demo_orders:
  "iteration_order (externalStates demoController) [''a'', ''b'']"
  "iteration_order (externalStates demoController) [''b'', ''a'']"
  by (auto simp: iteration_order_def demoController_def)

lemma demo_range:
  "range_map (externalStates demoController) [''b'', ''a''] = [(''b'', [''9.9.9.9'']), (''a'', [''8.8.8.8''])]"
  "range_map (externalStates demoController) [''a'', ''b''] = [(''a'', [''8.8.8.8'']), (''b'', [''9.9.9.9''])]"
  by (simp_all add: range_map_def demoController_def List.map_filter_simps)

lemma quiet_range:
  "range_map (blocklists demoController) (probeOrder quietEnv) = [(''feodo'', ''https://feodo.example/list'')]"
  by (simp add: range_map_def demoController_def quietEnv_def List.map_filter_simps)

lemma quiet_probes:
  "ripeProbe quietEnv = None" "externalProbe quietEnv = (\<lambda>name url. None)"
  "ripeProbe busyEnv = Some [''C,7.8.9.0/24,AS3'']" "externalProbe busyEnv = (\<lambda>name url. None)"
  "probeOrder busyEnv = probeOrder quietEnv"
  by (simp_all add: quietEnv_def busyEnv_def)

lemma quiet_probing: "probing quietEnv demoController = (False, False, demoController)"
  by (simp add: probing_def updateRipe_def quiet_range getExternalBlockList_def quiet_probes)

lemma busy_probing:
  "probing busyEnv demoController =
     (True, False, demoController\<lparr>ripeState := [''C,7.8.9.0/24,AS3'']\<rparr>)"
  by (simp add: probing_def updateRipe_def quiet_range getExternalBlockList_def quiet_probes)

section \<open>The claims\<close>

subsection \<open>The compiled blob\<close>

text \<open>
  C1 (as the spec states it): the merge writes the external sections in ascending order
  of source name, so that two compilations over the same RipeLines and ExternalLines
  produce identical bytes. The loop of line 97 ranges over the map directly and nothing
  sorts the names, so the spec's order does not hold: with the sources \<open>a\<close> and \<open>b\<close>,
  both orders are iteration orders of the same map and they give different bytes.
\<close>

theorem compile_order_dependent_counterexample:
  "iteration_order (externalStates demoController) [''a'', ''b''] \<and>
   iteration_order (externalStates demoController) [''b'', ''a''] \<and>
   compileFinalDataBlobFromCache demoController [''b'', ''a''] \<noteq>
   compileFinalDataBlobFromCache demoController [''a'', ''b'']"
  by (simp add: demo_orders compile_closed_form demo_range merged_text_def section_text_def)

text \<open>
  C1 (amended): the merge writes the external sections in the order in which the
  \<^verbatim>\<open>range\<close> loop visits the map. Two compilations over controllers with equal
  RipeLines and ExternalLines produce identical bytes when their loops visit the sources
  in the same order, and always when there is at most one external source.
\<close>

theorem compile_same_order_deterministic:
  assumes "ripeState c = ripeState c'" and "externalStates c = externalStates c'"
      and "iteration_order (externalStates c) ks" and "iteration_order (externalStates c') ks'"
      and "ks = ks' \<or> card (dom (externalStates c)) \<le> 1"
  shows "compileFinalDataBlobFromCache c ks = compileFinalDataBlobFromCache c' ks' \<and>
         gunzip (compileFinalDataBlobFromCache c ks) =
           Some (ripeHeader @ strings_Join (ripeState c) [CHR 0x0A] @ [CHR 0x0A] @
                 concat (map (\<lambda>name. strings_Join (the (externalStates c name)) [CHR 0x0A] @ [CHR 0x0A]) ks))"
proof -
  have "ks = ks'"
    using assms(2-5) distinct_small[of ks ks'] by (auto simp: iteration_order_def)
  then have "compileFinalDataBlobFromCache c ks = compileFinalDataBlobFromCache c' ks'"
    using assms(1,2) by (simp add: compile_closed_form)
  moreover have "gunzip (compileFinalDataBlobFromCache c ks) =
           Some (ripeHeader @ strings_Join (ripeState c) [CHR 0x0A] @ [CHR 0x0A] @
                 concat (map (\<lambda>name. strings_Join (the (externalStates c name)) [CHR 0x0A] @ [CHR 0x0A]) ks))"
    by (simp add: compile_closed_form merged_text_def section_text_def
                  range_map_iteration[OF assms(3)] comp_def)
  ultimately show ?thesis by simp
qed

theorem compile_same_order_deterministic_witness:
  "ripeState demoController = ripeState (demoController\<lparr>lastBatch := 99\<rparr>) \<and>
   externalStates demoController = externalStates (demoController\<lparr>lastBatch := 99\<rparr>) \<and>
   iteration_order (externalStates demoController) [''b'', ''a''] \<and>
   iteration_order (externalStates (demoController\<lparr>lastBatch := 99\<rparr>)) [''b'', ''a''] \<and>
   compileFinalDataBlobFromCache demoController [''b'', ''a''] =
     compileFinalDataBlobFromCache (demoController\<lparr>lastBatch := 99\<rparr>) [''b'', ''a''] \<and>
   gunzip (compileFinalDataBlobFromCache demoController [''b'', ''a'']) =
     Some (''# BTBlocklist RIPE search'' @ [CHR 0x0A] @ ''A,1.2.3.0/24,AS1'' @ [CHR 0x0A] @
           ''B,4.5.6.0/24,AS2'' @ [CHR 0x0A] @ ''9.9.9.9'' @ [CHR 0x0A] @ ''8.8.8.8'' @ [CHR 0x0A])"
proof -
  have h1: "ripeState demoController = ripeState (demoController\<lparr>lastBatch := 99\<rparr>)"
    by simp
  have h2: "externalStates demoController = externalStates (demoController\<lparr>lastBatch := 99\<rparr>)"
    by simp
  have h3: "iteration_order (externalStates demoController) [''b'', ''a'']"
    by (rule demo_orders)
  have h4: "iteration_order (externalStates (demoController\<lparr>lastBatch := 99\<rparr>)) [''b'', ''a'']"
    using h3 by simp
  have h5: "[''b'', ''a''] = [''b'', ''a''] \<or> card (dom (externalStates demoController)) \<le> 1"
    by simp
  have v: "externalStates demoController ''a'' = Some [''8.8.8.8'']"
     "externalStates demoController ''b'' = Some [''9.9.9.9'']"
     "ripeState demoController = [''A,1.2.3.0/24,AS1'', ''B,4.5.6.0/24,AS2'']"
    by (simp_all add: demoController_def)
  note r = compile_same_order_deterministic[OF h1 h2 h3 h4 h5]
  have g: "gunzip (compileFinalDataBlobFromCache demoController [''b'', ''a'']) =
     Some (''# BTBlocklist RIPE search'' @ [CHR 0x0A] @ ''A,1.2.3.0/24,AS1'' @ [CHR 0x0A] @
           ''B,4.5.6.0/24,AS2'' @ [CHR 0x0A] @ ''9.9.9.9'' @ [CHR 0x0A] @ ''8.8.8.8'' @ [CHR 0x0A])"
    using r[THEN conjunct2] by (simp add: ripeHeader_def v)
  show ?thesis
    by (intro conjI h1 h2 h3 h4 g r[THEN conjunct1])
qed

text \<open>
  C2 (as the spec states it): the decompressed blob is the header line, the RipeLines
  section, then the external sections ordered by name. With the loop visiting \<open>b\<close>
  before \<open>a\<close>, which Go may do, the decompressed blob is not the by-name text.
\<close>

theorem compiled_blob_by_name_counterexample:
  "iteration_order (externalStates demoController) [''b'', ''a''] \<and>
   gunzip (compileFinalDataBlobFromCache demoController [''b'', ''a'']) \<noteq>
   Some (ripeHeader @ strings_Join (ripeState demoController) [CHR 0x0A] @ [CHR 0x0A] @
         strings_Join [''8.8.8.8''] [CHR 0x0A] @ [CHR 0x0A] @
         strings_Join [''9.9.9.9''] [CHR 0x0A] @ [CHR 0x0A])"
  by (simp add: demo_orders compile_closed_form demo_range merged_text_def section_text_def)

text \<open>
  C2 (amended): the decompressed blob is exactly the header line, then the RipeLines
  joined by a newline and followed by one newline, then for each external source, in
  the order in which the \<^verbatim>\<open>range\<close> loop visits them, its lines joined by a newline
  and followed by one newline; nothing else is added between or after the sections.
\<close>

theorem compiled_blob_layout:
  assumes "iteration_order (externalStates c) ks"
  shows "gunzip (compileFinalDataBlobFromCache c ks) =
           Some (ripeHeader @ strings_Join (ripeState c) [CHR 0x0A] @ [CHR 0x0A] @
                 concat (map (\<lambda>name. strings_Join (the (externalStates c name)) [CHR 0x0A] @ [CHR 0x0A]) ks))"
  by (simp add: compile_closed_form merged_text_def section_text_def
                range_map_iteration[OF assms] comp_def)

theorem compiled_blob_layout_witness:
  "iteration_order (externalStates demoController) [''a'', ''b''] \<and>
   gunzip (compileFinalDataBlobFromCache demoController [''a'', ''b'']) =
     Some (''# BTBlocklist RIPE search'' @ [CHR 0x0A] @ ''A,1.2.3.0/24,AS1'' @ [CHR 0x0A] @
           ''B,4.5.6.0/24,AS2'' @ [CHR 0x0A] @ ''8.8.8.8'' @ [CHR 0x0A] @ ''9.9.9.9'' @ [CHR 0x0A])"
proof -
  have h: "iteration_order (externalStates demoController) [''a'', ''b'']"
    by (rule demo_orders)
  from compiled_blob_layout[OF h] h show ?thesis
    by (simp add: ripeHeader_def demoController_def)
qed

text \<open>
  C10: with no RipeLines the decompressed blob is still the header line followed by an
  empty line, and an external source with no lines contributes exactly one empty line:
  the newline after a section is written even when the section is empty.
\<close>

theorem empty_sections_keep_newline:
  "(ripeState c = [] \<longrightarrow>
      gunzip (compileFinalDataBlobFromCache c ks) =
        Some (ripeHeader @ [CHR 0x0A] @
              concat (map (\<lambda>(name, ls). strings_Join ls [CHR 0x0A] @ [CHR 0x0A])
                       (range_map (externalStates c) ks)))) \<and>
   (range_map (externalStates c) ks = pre @ (name, []) # post \<longrightarrow>
      gunzip (compileFinalDataBlobFromCache c ks) =
        Some (ripeHeader @ strings_Join (ripeState c) [CHR 0x0A] @ [CHR 0x0A] @
              concat (map (\<lambda>(name, ls). strings_Join ls [CHR 0x0A] @ [CHR 0x0A]) pre) @
              [CHR 0x0A] @
              concat (map (\<lambda>(name, ls). strings_Join ls [CHR 0x0A] @ [CHR 0x0A]) post)))"
  by (simp add: compile_closed_form merged_text_def section_text_def)

theorem empty_sections_keep_newline_witness:
  "ripeState emptyController = [] \<and>
   range_map (externalStates emptyController) [''a''] = [] @ (''a'', []) # [] \<and>
   gunzip (compileFinalDataBlobFromCache emptyController [''a'']) =
     Some (''# BTBlocklist RIPE search'' @ [CHR 0x0A, CHR 0x0A, CHR 0x0A])"
proof -
  have h1: "ripeState emptyController = []"
    by (simp add: emptyController_def)
  have h2: "range_map (externalStates emptyController) [''a''] = [] @ (''a'', []) # []"
    by (simp add: emptyController_def range_map_def List.map_filter_simps)
  from empty_sections_keep_newline[of emptyController "[''a'']" "[]" "''a''" "[]"] h1 h2
  show ?thesis
    by (simp add: ripeHeader_def)
qed

text \<open>
  C9: the compile step cannot fail. Over a \<^verbatim>\<open>bytes.Buffer\<close> and at the level
  \<^verbatim>\<open>gzip.BestCompression\<close> no operation returns an error, so for every controller
  and every iteration order the result is not nil; hence a batch in which some probe
  reported new data always publishes the new blob and sets the content timestamp.
\<close>

theorem compile_never_fails:
  "compileFinalDataBlobFromCache c ks \<noteq> [] \<and>
   (probing env c = (ripeUpdate, externalUpdate, c2) \<longrightarrow> ripeUpdate \<or> externalUpdate \<longrightarrow>
      compressedData (updaterBatch env c) = compileFinalDataBlobFromCache c2 (compileOrder env) \<and>
      lastUpdate (updaterBatch env c) = now env)"
  by (auto simp add: updaterBatch_def updaterBatchWith_def batchBody_def Let_def deferred_fields
        compileFinalDataBlobFromCache_def[symmetric] compile_closed_form)

theorem compile_never_fails_witness:
  "probing busyEnv demoController =
     (True, False, demoController\<lparr>ripeState := [''C,7.8.9.0/24,AS3'']\<rparr>) \<and>
   compileFinalDataBlobFromCache demoController [''a'', ''b''] \<noteq> [] \<and>
   gunzip (compressedData (updaterBatch busyEnv demoController)) =
     Some (''# BTBlocklist RIPE search'' @ [CHR 0x0A] @ ''C,7.8.9.0/24,AS3'' @ [CHR 0x0A] @
           ''9.9.9.9'' @ [CHR 0x0A] @ ''8.8.8.8'' @ [CHR 0x0A]) \<and>
   lastUpdate (updaterBatch busyEnv demoController) = 20"
proof -
  have h1: "probing busyEnv demoController =
     (True, False, demoController\<lparr>ripeState := [''C,7.8.9.0/24,AS3'']\<rparr>)"
    by (rule busy_probing)
  have co: "compileOrder busyEnv = [''b'', ''a'']" "now busyEnv = 20"
    by (simp_all add: busyEnv_def quietEnv_def)
  have r: "range_map (externalStates (demoController\<lparr>ripeState := [''C,7.8.9.0/24,AS3'']\<rparr>)) [''b'', ''a'']
     = [(''b'', [''9.9.9.9'']), (''a'', [''8.8.8.8''])]"
    using demo_range(1) by simp
  have rs: "ripeState (demoController\<lparr>ripeState := [''C,7.8.9.0/24,AS3'']\<rparr>) = [''C,7.8.9.0/24,AS3'']"
    by simp
  have g: "gunzip (compileFinalDataBlobFromCache (demoController\<lparr>ripeState := [''C,7.8.9.0/24,AS3'']\<rparr>) [''b'', ''a'']) =
     Some (''# BTBlocklist RIPE search'' @ [CHR 0x0A] @ ''C,7.8.9.0/24,AS3'' @ [CHR 0x0A] @
           ''9.9.9.9'' @ [CHR 0x0A] @ ''8.8.8.8'' @ [CHR 0x0A])"
    unfolding compile_closed_form r rs
    by (simp add: merged_text_def section_text_def ripeHeader_def)
  have k: "compileFinalDataBlobFromCache demoController [''a'', ''b''] \<noteq> [] \<and>
      compressedData (updaterBatch busyEnv demoController) =
        compileFinalDataBlobFromCache (demoController\<lparr>ripeState := [''C,7.8.9.0/24,AS3'']\<rparr>) [''b'', ''a''] \<and>
      lastUpdate (updaterBatch busyEnv demoController) = 20"
    using compile_never_fails[of demoController "[''a'', ''b'']" busyEnv True False
            "demoController\<lparr>ripeState := [''C,7.8.9.0/24,AS3'']\<rparr>"] h1
    by (simp add: co)
  from k g h1 show ?thesis by simp
qed

subsection \<open>One batch\<close>

text \<open>
  C3: when the RIPE probe and the probe of every configured blocklist report
  "no change", the published blob and the content timestamp are after the batch what
  they were before it, and the batch timestamp is the start time of the batch.
\<close>

theorem batch_no_change_keeps_cache:
  assumes "ripeProbe env = None"
      and "\<forall>(name, url) \<in> set (range_map (blocklists c) (probeOrder env)).
             externalProbe env name url = None"
  shows "compressedData (updaterBatch env c) = compressedData c \<and>
         lastUpdate (updaterBatch env c) = lastUpdate c \<and>
         lastBatch (updaterBatch env c) = now env"
proof -
  have "probing env c = (False, False, c)"
    using assms by (simp add: probing_def updateRipe_def probeExternal_unchanged)
  then show ?thesis
    by (simp add: updaterBatch_def updaterBatchWith_def batchBody_def deferred_fields)
qed

theorem batch_no_change_keeps_cache_witness:
  "ripeProbe quietEnv = None \<and>
   map (\<lambda>(name, url). externalProbe quietEnv name url)
     (range_map (blocklists demoController) (probeOrder quietEnv)) = [None] \<and>
   compressedData (updaterBatch quietEnv demoController) = [] \<and>
   lastUpdate (updaterBatch quietEnv demoController) = 0 \<and>
   lastBatch (updaterBatch quietEnv demoController) = 10"
proof -
  have h1: "ripeProbe quietEnv = None" by (simp add: quietEnv_def)
  have h2: "\<forall>(name, url) \<in> set (range_map (blocklists demoController) (probeOrder quietEnv)).
       externalProbe quietEnv name url = None"
    by (simp add: quietEnv_def)
  have h3: "map (\<lambda>(name, url). externalProbe quietEnv name url)
     (range_map (blocklists demoController) (probeOrder quietEnv)) = [None]"
    by (simp add: quiet_range quiet_probes)
  have v: "compressedData demoController = []" "lastUpdate demoController = 0"
     "now quietEnv = 10"
    by (simp_all add: demoController_def quietEnv_def)
  from batch_no_change_keeps_cache[OF h1 h2] h1 h3 show ?thesis
    by (simp add: v)
qed

text \<open>
  C4: when some probe reported new data and the compile step returns no data, nothing
  is published and the content timestamp does not move. The step over a buffer never
  returns nil (C9), so the property is stated for the batch over any compressor.
\<close>

theorem batch_compile_failure_keeps_cache:
  assumes "probing env c = (ripeUpdate, externalUpdate, c2)"
      and "ripeUpdate \<or> externalUpdate"
      and "compileWith ops c2 (compileOrder env) = []"
  shows "compressedData (updaterBatchWith ops env c) = compressedData c \<and>
         lastUpdate (updaterBatchWith ops env c) = lastUpdate c"
  using assms probing_frame[OF assms(1)]
  by (auto simp add: updaterBatchWith_def batchBody_def deferred_fields Let_def)

theorem batch_compile_failure_keeps_cache_witness:
  "probing busyEnv demoController =
     (True, False, demoController\<lparr>ripeState := [''C,7.8.9.0/24,AS3'']\<rparr>) \<and>
   compileWith failingCompressor (demoController\<lparr>ripeState := [''C,7.8.9.0/24,AS3'']\<rparr>)
     (compileOrder busyEnv) = [] \<and>
   compressedData (updaterBatchWith failingCompressor busyEnv demoController) = [] \<and>
   lastUpdate (updaterBatchWith failingCompressor busyEnv demoController) = 0"
proof -
  have h1: "probing busyEnv demoController =
     (True, False, demoController\<lparr>ripeState := [''C,7.8.9.0/24,AS3'']\<rparr>)"
    by (rule busy_probing)
  have h2: "True \<or> False" by simp
  have ops: "zNewWriterLevel failingCompressor lvl = Inr ()" "zWrite failingCompressor z p = Inr ()"
     "zClose failingCompressor z = Inl (Error ''short write'')" for lvl z p
    by (simp_all add: failingCompressor_def)
  have w: "writeExternal failingCompressor es () = Inr ()" for es
    by (induction es) (auto simp: ops io_Copy_def)
  have h3: "compileWith failingCompressor (demoController\<lparr>ripeState := [''C,7.8.9.0/24,AS3'']\<rparr>)
     (compileOrder busyEnv) = []"
    by (simp add: compileWith_def w io_Copy_def ops)
  from batch_compile_failure_keeps_cache[OF h1 h2 h3] h1 h3 show ?thesis
    by (simp add: demoController_def)
qed

text \<open>
  C6: the string handed to the status sink by a batch is
  \<open>RIPE: n range(s) | External: m list(s) with a total of k line(s) | Last modification:
  t1 | Last update: t2\<close>, with \<open>n\<close> the number of RIPE lines, \<open>m\<close> the number of external
  sources and \<open>k\<close> the sum of their line counts, all three taken from the state at the
  end of the batch, \<open>t1\<close> the formatted content timestamp and \<open>t2\<close> the formatted batch
  timestamp.
\<close>

theorem batch_status_message:
  assumes "iteration_order (externalStates (updaterBatchWith ops env c)) (statusOrder env)"
  shows "statusSink (updaterBatchWith ops env c) = statusSink c @
     [''RIPE: '' @ show_int (int (length (ripeState (updaterBatchWith ops env c)))) @
      '' range(s) | External: '' @
      show_int (int (card (dom (externalStates (updaterBatchWith ops env c))))) @
      '' list(s) with a total of '' @
      show_int (\<Sum>name \<in> dom (externalStates (updaterBatchWith ops env c)).
                  int (length (the (externalStates (updaterBatchWith ops env c) name)))) @
      '' line(s) | Last modification: '' @
      formatTime env (lastUpdate (updaterBatchWith ops env c)) timeFormat @
      '' | Last update: '' @
      formatTime env (lastBatch (updaterBatchWith ops env c)) timeFormat]"
proof -
  obtain ru eu c2 where p: "probing env c = (ru, eu, c2)" by (cases "probing env c") auto
  define c3 where "c3 = (if \<not> ru \<and> \<not> eu then c2
                 else (let data = compileWith ops c2 (compileOrder env)
                       in if data = [] then c2
                          else c2\<lparr>compressedData := data, lastUpdate := now env\<rparr>))"
  have b: "updaterBatchWith ops env c = deferred env (now env) c3"
    by (simp add: updaterBatchWith_def batchBody_def p c3_def Let_def)
  have s: "statusSink c3 = statusSink c"
    using probing_frame[OF p] by (simp add: c3_def Let_def)
  have io: "iteration_order (externalStates c3) (statusOrder env)"
    using assms by (simp add: b deferred_fields)
  show ?thesis
    unfolding b deferred_fields
    by (simp add: deferred_def Let_def updateStatus_frame Sprintf_status s countLines_range[OF io])
qed

theorem batch_status_message_witness:
  "iteration_order (externalStates (updaterBatchWith gzip_Buffer quietEnv demoController))
     (statusOrder quietEnv) \<and>
   statusSink (updaterBatchWith gzip_Buffer quietEnv demoController) =
     [''RIPE: 2 range(s) | External: 2 list(s) with a total of 2 line(s) | Last modification: 0 | Last update: 10'']"
proof -
  have b: "updaterBatchWith gzip_Buffer quietEnv demoController = deferred quietEnv 10 demoController"
    by (simp add: updaterBatchWith_def batchBody_def quiet_probing) (simp add: quietEnv_def)
  have so: "statusOrder quietEnv = [''a'', ''b'']" by (simp add: quietEnv_def)
  have h: "iteration_order (externalStates (updaterBatchWith gzip_Buffer quietEnv demoController))
             (statusOrder quietEnv)"
    by (simp add: b deferred_fields so demo_orders)
  have d: "dom (externalStates demoController) = {''a'', ''b''}"
    by (auto simp: demoController_def)
  have v: "externalStates demoController ''a'' = Some [''8.8.8.8'']"
     "externalStates demoController ''b'' = Some [''9.9.9.9'']"
     "ripeState demoController = [''A,1.2.3.0/24,AS1'', ''B,4.5.6.0/24,AS2'']"
     "lastUpdate demoController = 0" "statusSink demoController = []"
    by (simp_all add: demoController_def)
  have f: "formatTime quietEnv = (\<lambda>t layout. show_int t)" by (simp add: quietEnv_def)
  have s: "show_int 0 = ''0''" "show_int 2 = ''2''" "show_int 10 = ''10''"
    by (simp_all add: show_int_def show_nat.simps digit_char_def)
  from batch_status_message[OF h] h show ?thesis
    by (simp add: b deferred_fields d v f s)
qed

text \<open>
  C7: whatever the batch does (no change, a published blob, a failed compile), the
  batch timestamp becomes the start time of the batch, and exactly one string is handed
  to the status sink, after everything reported before: the status of the controller
  as the batch leaves it, with its RIPE lines, its external sources, their lines counted
  in the order of the loop of line 41, and its two timestamps. What the status callback
  returns does not matter: the controller after the batch is the one the batch leaves
  with a callback that never fails.
\<close>

theorem batch_always_reports:
  "lastBatch (updaterBatchWith ops env c) = now env \<and>
   statusSink (updaterBatchWith ops env c) = statusSink c @
     [Sprintf statusFormat
        [IntArg (int (length (ripeState (updaterBatchWith ops env c)))),
         IntArg (int (card (dom (externalStates (updaterBatchWith ops env c))))),
         IntArg (countLines (range_map (externalStates (updaterBatchWith ops env c))
                              (statusOrder env)) 0),
         StrArg (formatTime env (lastUpdate (updaterBatchWith ops env c)) timeFormat),
         StrArg (formatTime env (lastBatch (updaterBatchWith ops env c)) timeFormat)]] \<and>
   updaterBatchWith ops (env\<lparr>statusUpdate := report\<rparr>) c =
   updaterBatchWith ops (env\<lparr>statusUpdate := \<lambda>msg. None\<rparr>) c"
proof -
  obtain c3 where b: "updaterBatchWith ops env c = deferred env (now env) c3"
    and s: "statusSink c3 = statusSink c"
    by (rule updaterBatchWith_cases)
  have pe: "probing (env\<lparr>statusUpdate := f\<rparr>) c = probing env c" for f
    by (simp add: probing_def)
  have d: "deferred (env\<lparr>statusUpdate := f\<rparr>) t x = deferred env t x" for f t x
    by (simp add: deferred_def updateStatus_frame Let_def)
  have bb: "batchBody ops (env\<lparr>statusUpdate := f\<rparr>) t c = batchBody ops env t c" for f t
    by (simp add: batchBody_def pe split: prod.splits)
  have 1: "lastBatch (updaterBatchWith ops env c) = now env"
    by (simp add: b deferred_fields)
  have 2: "statusSink (updaterBatchWith ops env c) = statusSink c @
     [Sprintf statusFormat
        [IntArg (int (length (ripeState (updaterBatchWith ops env c)))),
         IntArg (int (card (dom (externalStates (updaterBatchWith ops env c))))),
         IntArg (countLines (range_map (externalStates (updaterBatchWith ops env c))
                              (statusOrder env)) 0),
         StrArg (formatTime env (lastUpdate (updaterBatchWith ops env c)) timeFormat),
         StrArg (formatTime env (lastBatch (updaterBatchWith ops env c)) timeFormat)]]"
    unfolding b deferred_fields
    by (simp add: deferred_def Let_def updateStatus_frame s)
  have 3: "updaterBatchWith ops (env\<lparr>statusUpdate := report\<rparr>) c =
           updaterBatchWith ops (env\<lparr>statusUpdate := \<lambda>msg. None\<rparr>) c"
    by (simp add: updaterBatchWith_deferred bb d)
  from 1 2 3 show ?thesis by (intro conjI)
qed

subsection \<open>The worker loop\<close>







end
